theory Spec2Isabelle
  imports Complex_Main "HOL-Library.Log_Nat"
begin

section \<open>Python values shared by the snippets\<close>

text \<open>
  The exceptions the snippets of \<open>try.py\<close> raise or let through. \<open>KeyboardInterrupt\<close>
  stands for the exceptions that derive from \<open>BaseException\<close> only; every other
  constructor is a subclass of \<open>Exception\<close>.
\<close>

datatype error =
    ValueError string
  | OverflowError
  | IndexError
  | TypeError
  | FileNotFoundError
  | JSONDecodeError string
  | OtherException string
  | KeyboardInterrupt

fun is_Exception :: "error \<Rightarrow> bool" where
  "is_Exception KeyboardInterrupt = False"
| "is_Exception _ = True"

text \<open>Python list indexing \<open>xs[i]\<close>: a negative index counts from the end, an index out
  of range raises \<open>IndexError\<close>.\<close>

definition py_index :: "'a list \<Rightarrow> int \<Rightarrow> error + 'a" where
  "py_index xs i =
     (if 0 \<le> i \<and> i < int (length xs) then Inr (xs ! nat i)
      else if i < 0 \<and> - int (length xs) \<le> i then Inr (xs ! nat (int (length xs) + i))
      else Inl IndexError)"

section \<open>fibonacci\<close>

text \<open>
  \<^verbatim>\<open>
  fib = [0, 1]
  for i in range(2, n):
      fib.append(fib[i-1] + fib[i-2])
  \<close>
  The loop of \<open>fibonacci\<close>, with \<open>i\<close> the loop variable and \<open>fib\<close> the list built so far.
\<close>

function fib_loop :: "int \<Rightarrow> int \<Rightarrow> int list \<Rightarrow> error + int list" where
  "fib_loop i n fib =
     (if i < n then
        (case py_index fib (i - 1) of
           Inl e \<Rightarrow> Inl e
         | Inr a \<Rightarrow>
            (case py_index fib (i - 2) of
               Inl e \<Rightarrow> Inl e
             | Inr b \<Rightarrow> fib_loop (i + 1) n (fib @ [a + b])))
      else Inr fib)"
  by pat_completeness auto
termination
  by (relation "measure (\<lambda>(i, n, fib). nat (n - i))") auto

declare fib_loop.simps [simp del]

definition fibonacci :: "int \<Rightarrow> error + int list" where
  "fibonacci n =
     (if n \<le> 0 then Inr []
      else if n = 1 then Inr [0]
      else if n = 2 then Inr [0, 1]
      else fib_loop 2 n [0, 1])"

text \<open>The Fibonacci sequence as the claim words it: it starts 0, 1 and each later term is
  the sum of the two before it.\<close>

fun fib_seq :: "nat \<Rightarrow> int" where
  "fib_seq 0 = 0"
| "fib_seq (Suc 0) = 1"
| "fib_seq (Suc (Suc k)) = fib_seq (Suc k) + fib_seq k"

section \<open>Python numbers: ints and doubles\<close>

text \<open>
  A Python \<open>int\<close> is an \<^typ>\<open>int\<close>. A finite Python \<open>float\<close> (an IEEE 754 double) is the rational
  number it denotes. \<open>double_of_ratio a b\<close> is the double nearest to \<open>a / b\<close>, ties to the
  even significand, with 53 significant bits, the least exponent \<open>- 1074\<close>, and
  \<open>OverflowError\<close> from \<open>2 ^ 1024\<close> on; it is what Python computes for \<open>float(a)\<close> (with \<open>b = 1\<close>)
  and for the true division \<open>a / b\<close> of two ints.
\<close>

definition pow2 :: "int \<Rightarrow> rat" where
  "pow2 k = (if 0 \<le> k then 2 ^ nat k else 1 / 2 ^ nat (- k))"

definition round_half_even :: "rat \<Rightarrow> int" where
  "round_half_even x =
     (let f = \<lfloor>x\<rfloor>; d = x - of_int f
      in if d < 1 / 2 then f
         else if 1 / 2 < d then f + 1
         else if even f then f else f + 1)"

definition floor_log2 :: "int \<Rightarrow> int \<Rightarrow> int" where
  \<comment> \<open>for \<open>0 < a\<close> and \<open>0 < b\<close>: the \<open>e\<close> with \<open>2 ^ e \<le> a / b < 2 ^ (e + 1)\<close>\<close>
  "floor_log2 a b =
     (let e = bitlen a - bitlen b
      in if of_int b * pow2 e \<le> (of_int a :: rat) then e else e - 1)"

definition double_of_ratio :: "int \<Rightarrow> int \<Rightarrow> error + rat" where
  "double_of_ratio a b =
     (if a = 0 \<or> b = 0 then Inr 0
      else
        let q = max (floor_log2 \<bar>a\<bar> \<bar>b\<bar> - 52) (- 1074);
            m = round_half_even (of_int \<bar>a\<bar> / (of_int \<bar>b\<bar> * pow2 q));
            r = of_int m * pow2 q
        in if 2 ^ 1024 \<le> r then Inl OverflowError
           else Inr (of_int (sgn a * sgn b) * r))"

definition int_to_float :: "int \<Rightarrow> error + rat" where
  "int_to_float n = double_of_ratio n 1"

text \<open>Decimal digits of a natural number and of an int, as \<open>str\<close> prints them.\<close>

definition digit_char :: "nat \<Rightarrow> char" where
  "digit_char d = ''0123456789'' ! d"

function str_nat :: "nat \<Rightarrow> string" where
  "str_nat n = (if n < 10 then [digit_char n] else str_nat (n div 10) @ [digit_char (n mod 10)])"
  by pat_completeness auto
termination
  by (relation "measure id") auto

declare str_nat.simps [simp del]

definition str_int :: "int \<Rightarrow> string" where
  "str_int i = (if i < 0 then ''-'' @ str_nat (nat (- i)) else str_nat (nat i))"

text \<open>
  The format \<open>.1f\<close> of a double: the exact value rounded to one decimal, ties to the even
  digit, with every digit of the integer part printed.
\<close>

definition format_1f :: "rat \<Rightarrow> string" where
  "format_1f x =
     (let t = nat (round_half_even (10 * \<bar>x\<bar>))
      in (if x < 0 then ''-'' else []) @ str_nat (t div 10) @ ''.'' @ str_nat (t mod 10))"

section \<open>is_prime and find_primes\<close>











section \<open>format_file_size\<close>

text \<open>
  \<open>size_bytes\<close> is an int when the loop starts and a float after the first division.
\<close>

datatype pynum = PInt int | PFloat rat

fun py_value :: "pynum \<Rightarrow> rat" where
  "py_value (PInt n) = of_int n"
| "py_value (PFloat x) = x"

text \<open>\<open>f"{size_bytes:.1f}"\<close>: an int is converted to a double before it is formatted.\<close>

fun py_format_1f :: "pynum \<Rightarrow> error + string" where
  "py_format_1f (PInt n) =
     (case int_to_float n of Inl e \<Rightarrow> Inl e | Inr x \<Rightarrow> Inr (format_1f x))"
| "py_format_1f (PFloat x) = Inr (format_1f x)"

text \<open>
  \<open>size_bytes / 1024.0\<close>: an int is converted to a double first. The loop divides doubles
  that are at least 1024 only; dividing such a double by \<open>2 ^ 10\<close> lowers its exponent and
  is exact.
\<close>

fun py_div_1024 :: "pynum \<Rightarrow> error + pynum" where
  "py_div_1024 (PInt n) =
     (case int_to_float n of Inl e \<Rightarrow> Inl e | Inr x \<Rightarrow> Inr (PFloat (x / 1024)))"
| "py_div_1024 (PFloat x) = Inr (PFloat (x / 1024))"

fun format_loop :: "pynum \<Rightarrow> string list \<Rightarrow> error + string" where
  "format_loop size_bytes [] =
     (case py_format_1f size_bytes of Inl e \<Rightarrow> Inl e | Inr s \<Rightarrow> Inr (s @ '' PB''))"
| "format_loop size_bytes (unit # units) =
     (if py_value size_bytes < 1024 then
        (case py_format_1f size_bytes of Inl e \<Rightarrow> Inl e | Inr s \<Rightarrow> Inr (s @ '' '' @ unit))
      else
        (case py_div_1024 size_bytes of
           Inl e \<Rightarrow> Inl e
         | Inr q \<Rightarrow> format_loop q units))"

definition format_file_size :: "int \<Rightarrow> error + string" where
  "format_file_size size_bytes =
     format_loop (PInt size_bytes) [''B'', ''KB'', ''MB'', ''GB'', ''TB'']"

section \<open>Verification\<close>

subsection \<open>fibonacci\<close>

lemma py_index_in_range:
  "0 \<le> i \<Longrightarrow> i < int (length xs) \<Longrightarrow> py_index xs i = Inr (xs ! nat i)"
  by (simp add: py_index_def)

lemma fib_seq_step:
  assumes "2 \<le> k"
  shows "fib_seq k = fib_seq (k - 1) + fib_seq (k - 2)"
proof -
  from assms obtain j where "k = Suc (Suc j)"
    by (metis Suc_le_D numeral_2_eq_2 Suc_le_mono)
  then show ?thesis by simp
qed

lemma fib_loop_prefix:
  "2 \<le> i \<Longrightarrow> i \<le> n \<Longrightarrow>
     fib_loop i n (map fib_seq [0..<nat i]) = Inr (map fib_seq [0..<nat n])"
proof (induction i n "map fib_seq [0..<nat i]" rule: fib_loop.induct)
  case (1 i n)
  show ?case
  proof (cases "i < n")
    case False
    with "1.prems" have "i = n" by simp
    then show ?thesis by (simp add: fib_loop.simps)
  next
    case True
    have a: "py_index (map fib_seq [0..<nat i]) (i - 1) = Inr (fib_seq (nat i - 1))"
      using "1.prems" by (simp add: py_index_in_range nat_diff_distrib)
    have b: "py_index (map fib_seq [0..<nat i]) (i - 2) = Inr (fib_seq (nat i - 2))"
      using "1.prems" by (simp add: py_index_in_range nat_diff_distrib)
    have step: "fib_seq (nat i - 1) + fib_seq (nat i - 2) = fib_seq (nat i)"
      using "1.prems" fib_seq_step [of "nat i"] by simp
    have ext: "map fib_seq [0..<nat i] @ [fib_seq (nat i)] = map fib_seq [0..<nat (i + 1)]"
      using "1.prems" by (simp add: nat_add_distrib)
    have "fib_loop (i + 1) n (map fib_seq [0..<nat (i + 1)]) = Inr (map fib_seq [0..<nat n])"
      using "1.hyps" [OF True a b] "1.prems" True step ext by simp
    then show ?thesis
      using True a b step ext by (subst fib_loop.simps) simp
  qed
qed

text \<open>
  Claim C2. \<open>fibonacci n\<close> returns the first \<open>n\<close> terms of the Fibonacci sequence that
  starts 0, 1 and in which each later term is the sum of the two before it: for every
  \<open>n \<ge> 1\<close> the result is the list of \<open>fib_seq 0\<close>, ..., \<open>fib_seq (n - 1)\<close> and has length
  \<open>n\<close>; for every \<open>n \<le> 0\<close> it is the empty list; and \<open>fibonacci 5\<close> is [0, 1, 1, 2, 3].
\<close>

theorem fibonacci_first_terms:
  "(1 \<le> n \<longrightarrow> fibonacci n = Inr (map fib_seq [0..<nat n])
        \<and> (\<exists>xs. fibonacci n = Inr xs \<and> int (length xs) = n))
   \<and> (n \<le> 0 \<longrightarrow> fibonacci n = Inr [])
   \<and> fibonacci 5 = Inr [0, 1, 1, 2, 3]"
proof -
  have five: "fibonacci 5 = Inr [0, 1, 1, 2, 3]"
    by (simp add: fibonacci_def py_index_def fib_loop.simps)
  have small: "n \<le> 0 \<Longrightarrow> fibonacci n = Inr []"
    by (simp add: fibonacci_def)
  have main: "fibonacci n = Inr (map fib_seq [0..<nat n])" if pos: "1 \<le> n"
  proof -
    consider "n = 1" | "n = 2" | "3 \<le> n" using pos by linarith
    then show ?thesis
    proof cases
      case 1
      then show ?thesis by (simp add: fibonacci_def)
    next
      case 2
      have "[0..<nat 2] = [0, Suc 0]" by (simp add: upt_rec)
      with 2 show ?thesis by (simp add: fibonacci_def)
    next
      case 3
      have two: "map fib_seq [0..<nat 2] = [0, 1]" by (simp add: upt_rec)
      have "fib_loop 2 n (map fib_seq [0..<nat 2]) = Inr (map fib_seq [0..<nat n])"
        using fib_loop_prefix [of 2 n] 3 by simp
      then have "fib_loop 2 n [0, 1] = Inr (map fib_seq [0..<nat n])"
        by (simp only: two)
      with 3 show ?thesis by (simp add: fibonacci_def)
    qed
  qed
  from main small five show ?thesis by auto
qed

theorem fibonacci_first_terms_witness:
  "fibonacci 7 = Inr [0, 1, 1, 2, 3, 5, 8] \<and> fibonacci (- 3) = Inr []"
  using fibonacci_first_terms [of 7] fibonacci_first_terms [of "- 3"]
  by (simp add: upt_rec numeral_eq_Suc)

subsection \<open>Doubles, is_prime and find_primes\<close>
























end
